theory Spec2Isabelle
  imports Main "HOL-Library.Word"
begin

unbundle bit_operations_syntax

section \<open>Values of the JavaScript runtime\<close>

text \<open>
  The batch templates the tool works on are what \<^verbatim>\<open>JSON.parse\<close> returns: trees of
  objects, arrays, strings, numbers, booleans and null. \<^verbatim>\<open>undefined\<close> is added, being
  what a read of a missing property gives. An object is the list of its own properties,
  in insertion order. Numbers are the integer-valued ones (every number of the example
  templates is an integer); a \<open>char\<close> stands for one code unit of a string, so that
  \<open>length\<close> is the \<^verbatim>\<open>.length\<close> of the source.
\<close>

datatype jsval =
    JUndefined
  | JNull
  | JBool bool
  | JNum int
  | JStr string
  | JArr "jsval list"
  | JObj "(string \<times> jsval) list"

text \<open>
  The errors the source throws. Each \<^verbatim>\<open>new Error(message)\<close> of the source is one
  constructor, carrying what the message interpolates; \<open>TypeError\<close> is the runtime's
  own error for a property read on \<^verbatim>\<open>undefined\<close> or \<^verbatim>\<open>null\<close> and for a call of
  something that is not a function. \<open>External\<close> is an error thrown by the ledger-client
  library, with its message.
\<close>

datatype error =
    TypeError
  | NotAnObject           \<comment> \<open>Invalid batch transaction: must be a valid JSON object\<close>
  | KindNotBatch          \<comment> \<open>Invalid batch transaction: TransactionType must be "Batch"\<close>
  | NoRawTransactions     \<comment> \<open>Invalid batch transaction: must contain RawTransactions array\<close>
  | SeedNotString         \<comment> \<open>Invalid seed: must be a string\<close>
  | SeedPrefix            \<comment> \<open>Invalid seed: must start with "s"\<close>
  | SeedTooShort          \<comment> \<open>Invalid seed: too short\<close>
  | SubmitterIsSigner string nat
      \<comment> \<open>Error: Account ... is the batch submitter (parent account) ..., with the
          signer address and the number of inner transactions it submits\<close>
  | WebKind               \<comment> \<open>TransactionType must be "Batch"\<close>
  | WebAccount            \<comment> \<open>Missing or invalid outer "Account" field\<close>
  | WebRawCount           \<comment> \<open>RawTransactions must be an array with 2-8 items\<close>
  | WebExistingSigners    \<comment> \<open>Remove existing BatchSigners array ...\<close>
  | WebInnerInvalid nat   \<comment> \<open>RawTransactions[i]: Invalid RawTransaction\<close>
  | WebInnerFee nat       \<comment> \<open>RawTransactions[i]: Fee must be "0"\<close>
  | WebInnerSigningPubKey nat  \<comment> \<open>RawTransactions[i]: SigningPubKey must be empty\<close>
  | WebInnerTxnSignature nat   \<comment> \<open>RawTransactions[i]: TxnSignature not allowed\<close>
  | WebInnerFlag nat      \<comment> \<open>RawTransactions[i]: Missing tfInnerBatchTxn flag\<close>
  | SeedMatchesOuter      \<comment> \<open>Seed matches outer Batch Account - use an inner account seed\<close>
  | Cancelled             \<comment> \<open>Cancelled\<close>
  | NoBatchSigner         \<comment> \<open>No BatchSigner generated\<close>
  | SyntaxError           \<comment> \<open>thrown by JSON.parse on a text that is not JSON\<close>
  | External string

text \<open>\<^verbatim>\<open>!v\<close> is true on the falsy values: undefined, null, false, 0 and the empty string.\<close>

fun truthy :: "jsval \<Rightarrow> bool" where
  "truthy JUndefined = False"
| "truthy JNull = False"
| "truthy (JBool b) = b"
| "truthy (JNum n) = (n \<noteq> 0)"
| "truthy (JStr s) = (s \<noteq> [])"
| "truthy (JArr xs) = True"
| "truthy (JObj kvs) = True"

text \<open>\<^verbatim>\<open>typeof v === 'object'\<close>: objects, arrays and null.\<close>

fun typeof_object :: "jsval \<Rightarrow> bool" where
  "typeof_object JNull = True"
| "typeof_object (JArr xs) = True"
| "typeof_object (JObj kvs) = True"
| "typeof_object v = False"

fun typeof_string :: "jsval \<Rightarrow> bool" where
  "typeof_string (JStr s) = True"
| "typeof_string v = False"

fun isArray :: "jsval \<Rightarrow> bool" where
  "isArray (JArr xs) = True"
| "isArray v = False"

text \<open>The value of an own property of an object, undefined when the object has none.\<close>

definition own :: "(string \<times> jsval) list \<Rightarrow> string \<Rightarrow> jsval" where
  "own kvs k = (case map_of kvs k of None \<Rightarrow> JUndefined | Some v \<Rightarrow> v)"

text \<open>
  \<^verbatim>\<open>v.name\<close> for the property names the source reads other than \<^verbatim>\<open>length\<close>
  (TransactionType, Account, RawTransactions, BatchSigners, RawTransaction, Fee,
  SigningPubKey, TxnSignature, Flags, BatchSigner): none is an index and none is
  inherited from a prototype, so the read throws on undefined and null, looks the own
  properties of an object up, and is undefined on everything else.
\<close>

fun get_prop :: "jsval \<Rightarrow> string \<Rightarrow> error + jsval" where
  "get_prop JUndefined k = Inl TypeError"
| "get_prop JNull k = Inl TypeError"
| "get_prop (JObj kvs) k = Inr (own kvs k)"
| "get_prop v k = Inr JUndefined"

text \<open>\<^verbatim>\<open>v === s\<close> for a string \<open>s\<close>: strict equality, no coercion.\<close>

fun strict_eq_str :: "jsval \<Rightarrow> string \<Rightarrow> bool" where
  "strict_eq_str (JStr t) s = (t = s)"
| "strict_eq_str v s = False"

section \<open>The command-line tool: validation\<close>

text \<open>\<^verbatim>\<open>validateSeed(seed)\<close>, batchSignerTool.js.\<close>

definition startsWith_s :: "string \<Rightarrow> bool" where
  "startsWith_s s = (take 1 s = ''s'')"

definition validateSeed :: "jsval \<Rightarrow> error + bool" where
  "validateSeed seed =
     (if \<not> truthy seed \<or> \<not> typeof_string seed then Inl SeedNotString
      else case seed of
        JStr s \<Rightarrow>
          if \<not> startsWith_s s then Inl SeedPrefix
          else if length s < 25 then Inl SeedTooShort
          else Inr True
      | _ \<Rightarrow> Inl SeedNotString)"

text \<open>The seeds the check lets through, as the claim words them.\<close>

fun seed_accepted :: "jsval \<Rightarrow> bool" where
  "seed_accepted (JStr s) = (startsWith_s s \<and> 25 \<le> length s)"
| "seed_accepted v = False"

text \<open>\<^verbatim>\<open>validateBatchTransaction(batchTx)\<close>, batchSignerTool.js.\<close>

definition validateBatchTransaction :: "jsval \<Rightarrow> error + bool" where
  "validateBatchTransaction batchTx =
     (if \<not> truthy batchTx \<or> \<not> typeof_object batchTx then Inl NotAnObject
      else
      (case get_prop batchTx ''TransactionType'' of
         Inl e \<Rightarrow> Inl e
       | Inr kind \<Rightarrow>
      if \<not> strict_eq_str kind ''Batch'' then Inl KindNotBatch
      else
      (case get_prop batchTx ''RawTransactions'' of
         Inl e \<Rightarrow> Inl e
       | Inr raw \<Rightarrow>
      (case raw of
         JArr entries \<Rightarrow>
           if length entries = 0 then Inl NoRawTransactions else Inr True
       | _ \<Rightarrow> Inl NoRawTransactions))))"

section \<open>The command-line tool: the involvement check\<close>

text \<open>
  What \<^verbatim>\<open>checkSignerInvolvement\<close> prints: the two \<^verbatim>\<open>console.warn\<close> lines for a
  signer that submits no inner transaction (one constructor for the pair), or the
  \<^verbatim>\<open>console.log\<close> line with the number of inner transactions it submits.
\<close>

datatype console =
    WarnNotSubmitting string
  | LogSubmitting string nat

text \<open>
  \<^verbatim>\<open>entries.map(rawTx => rawTx.RawTransaction.Account)\<close>: the callback runs on the
  entries in order, and the first read that throws ends the whole call.
\<close>

fun inner_accounts :: "jsval list \<Rightarrow> error + jsval list" where
  "inner_accounts [] = Inr []"
| "inner_accounts (rawTx # rest) =
     (case get_prop rawTx ''RawTransaction'' of
        Inl e \<Rightarrow> Inl e
      | Inr tx \<Rightarrow>
          (case get_prop tx ''Account'' of
             Inl e \<Rightarrow> Inl e
           | Inr account \<Rightarrow>
               (case inner_accounts rest of
                  Inl e \<Rightarrow> Inl e
                | Inr accounts \<Rightarrow> Inr (account # accounts))))"

text \<open>
  \<^verbatim>\<open>checkSignerInvolvement(batchTx, signerAddress)\<close>. The list of involved accounts is
  computed first, so a template whose inner list cannot be read throws a TypeError
  before the submitter is looked at. \<^verbatim>\<open>.map\<close> on anything but an array is a TypeError
  as well (a read on undefined, or a call of what is not a function).
\<close>

definition checkSignerInvolvement :: "jsval \<Rightarrow> string \<Rightarrow> error + console list" where
  "checkSignerInvolvement batchTx signerAddress =
     (case get_prop batchTx ''RawTransactions'' of
        Inl e \<Rightarrow> Inl e
      | Inr raw \<Rightarrow>
          (case raw of
             JArr entries \<Rightarrow>
               (case inner_accounts entries of
                  Inl e \<Rightarrow> Inl e
                | Inr accounts \<Rightarrow>
                    (let involvedAccounts =
                           filter (\<lambda>account. strict_eq_str account signerAddress) accounts
                     in case get_prop batchTx ''Account'' of
                          Inl e \<Rightarrow> Inl e
                        | Inr submitter \<Rightarrow>
                            if strict_eq_str submitter signerAddress
                            then Inl (SubmitterIsSigner signerAddress (length involvedAccounts))
                            else if length involvedAccounts = 0
                            then Inr [WarnNotSubmitting signerAddress]
                            else Inr [LogSubmitting signerAddress (length involvedAccounts)]))
           | _ \<Rightarrow> Inl TypeError))"

section \<open>The command-line tool: one signature\<close>

text \<open>
  The ledger-client library is a collaborator: \<^verbatim>\<open>xrpl.Wallet.fromSeed\<close> derives the
  wallet of a seed or throws, and \<^verbatim>\<open>signMultiBatch(wallet, tx, options)\<close> writes the
  \<^verbatim>\<open>BatchSigners\<close> of the transaction it is given or throws; here it returns the
  transaction as it has left it. Both are parameters of the model.
\<close>

record xrpl_wallet =
  address :: string
  publicKey :: string
  privateKey :: string

record library =
  fromSeed :: "string \<Rightarrow> error + xrpl_wallet"
  signMultiBatch :: "xrpl_wallet \<Rightarrow> jsval \<Rightarrow> jsval \<Rightarrow> error + jsval"

text \<open>
  The calls of the signing function a run has made: the address of the wallet that
  signs and the options handed over with it.
\<close>

datatype call = Signed string jsval

datatype 'a outcome = Returned 'a | Thrown error | Exited nat

text \<open>\<^verbatim>\<open>message.includes(pattern)\<close>.\<close>

fun str_includes :: "string \<Rightarrow> string \<Rightarrow> bool" where
  "str_includes [] pattern = (pattern = [])"
| "str_includes (c # s) pattern = (take (length pattern) (c # s) = pattern \<or> str_includes s pattern)"

text \<open>
  \<^verbatim>\<open>error.message.includes('batch submitter (parent account)')\<close>: the message of the
  submitter error holds the phrase whatever the address is, the other messages of the
  tool and the TypeErrors of the runtime do not, and the library's messages are searched.
\<close>

fun mentions_submitter :: "error \<Rightarrow> bool" where
  "mentions_submitter (SubmitterIsSigner a n) = True"
| "mentions_submitter (External message) = str_includes message ''batch submitter (parent account)''"
| "mentions_submitter e = False"

text \<open>\<^verbatim>\<open>v[0]\<close>: a TypeError on undefined and null, the first element of an array.\<close>

fun index0 :: "jsval \<Rightarrow> error + jsval" where
  "index0 JUndefined = Inl TypeError"
| "index0 JNull = Inl TypeError"
| "index0 (JArr []) = Inr JUndefined"
| "index0 (JArr (x # xs)) = Inr x"
| "index0 (JStr []) = Inr JUndefined"
| "index0 (JStr (c # s)) = Inr (JStr [c])"
| "index0 (JObj kvs) = Inr (own kvs ''0'')"
| "index0 v = Inr JUndefined"

text \<open>
  The body of the \<^verbatim>\<open>try\<close> of \<^verbatim>\<open>generateBatchSignature(batchTx, signerSeed, options)\<close>:
  the two validations, the wallet, the involvement check, then the copy
  \<^verbatim>\<open>{ ...batchTx }\<close> is signed and its first \<^verbatim>\<open>BatchSigners\<close> entry is returned as
  \<^verbatim>\<open>{ BatchSigner: ... }\<close>. A seed that passed \<open>validateSeed\<close> is a string.
\<close>

definition generateBatchSignature_try ::
  "library \<Rightarrow> jsval \<Rightarrow> jsval \<Rightarrow> jsval \<Rightarrow> call list \<times> (error + jsval)" where
  "generateBatchSignature_try lib batchTx signerSeed options =
     (case validateBatchTransaction batchTx of
        Inl e \<Rightarrow> ([], Inl e)
      | Inr _ \<Rightarrow>
     (case validateSeed signerSeed of
        Inl e \<Rightarrow> ([], Inl e)
      | Inr _ \<Rightarrow>
     (case fromSeed lib (case signerSeed of JStr s \<Rightarrow> s | _ \<Rightarrow> []) of
        Inl e \<Rightarrow> ([], Inl e)
      | Inr signerWallet \<Rightarrow>
     (case checkSignerInvolvement batchTx (address signerWallet) of
        Inl e \<Rightarrow> ([], Inl e)
      | Inr _ \<Rightarrow>
     (case signMultiBatch lib signerWallet batchTx options of
        Inl e \<Rightarrow> ([Signed (address signerWallet) options], Inl e)
      | Inr txToSign \<Rightarrow>
          ([Signed (address signerWallet) options],
           (case get_prop txToSign ''BatchSigners'' of
              Inl e \<Rightarrow> Inl e
            | Inr signers \<Rightarrow>
                (case index0 signers of
                   Inl e \<Rightarrow> Inl e
                 | Inr batchSigner \<Rightarrow>
                     (case get_prop batchSigner ''BatchSigner'' of
                        Inl e \<Rightarrow> Inl e
                      | Inr entry \<Rightarrow> Inr (JObj [(''BatchSigner'', entry)]))))))))))"

text \<open>
  The \<^verbatim>\<open>catch\<close>: the submitter error ends the process with status 1, every other
  error is thrown again.
\<close>

definition generateBatchSignature ::
  "library \<Rightarrow> jsval \<Rightarrow> jsval \<Rightarrow> jsval \<Rightarrow> call list \<times> jsval outcome" where
  "generateBatchSignature lib batchTx signerSeed options =
     (case generateBatchSignature_try lib batchTx signerSeed options of
        (calls, Inr formattedOutput) \<Rightarrow> (calls, Returned formattedOutput)
      | (calls, Inl e) \<Rightarrow>
          if mentions_submitter e then (calls, Exited 1) else (calls, Thrown e))"


section \<open>The web form: template validation\<close>

text \<open>
  Two expressions of the form coerce a value to a number: \<^verbatim>\<open>v > 0\<close> and
  \<^verbatim>\<open>v & 0x40000000\<close>. On undefined, null, a boolean and a number the result is written
  out below. On a string, an array or an object the runtime converts the operand to a
  primitive and parses its text as a floating-point number; what the two expressions
  observe of that conversion (it may also throw) is a parameter of the model.
\<close>

record coercions =
  coerce_gt0 :: "jsval \<Rightarrow> error + bool"
  coerce_int32 :: "jsval \<Rightarrow> error + 32 word"

text \<open>\<^verbatim>\<open>v > 0\<close>: undefined is NaN, null is 0, true is 1.\<close>

fun gt0 :: "coercions \<Rightarrow> jsval \<Rightarrow> error + bool" where
  "gt0 rt JUndefined = Inr False"
| "gt0 rt JNull = Inr False"
| "gt0 rt (JBool b) = Inr b"
| "gt0 rt (JNum n) = Inr (0 < n)"
| "gt0 rt v = coerce_gt0 rt v"

text \<open>The 32-bit integer that \<^verbatim>\<open>&\<close> makes of its operand.\<close>

fun to_int32 :: "coercions \<Rightarrow> jsval \<Rightarrow> error + 32 word" where
  "to_int32 rt JUndefined = Inr 0"
| "to_int32 rt JNull = Inr 0"
| "to_int32 rt (JBool b) = Inr (if b then 1 else 0)"
| "to_int32 rt (JNum n) = Inr (word_of_int n)"
| "to_int32 rt v = coerce_int32 rt v"

text \<open>
  \<^verbatim>\<open>v.length\<close>: the length of an array or a string, the own property of that name of
  an object, undefined on a number or a boolean.
\<close>

fun length_prop :: "jsval \<Rightarrow> error + jsval" where
  "length_prop JUndefined = Inl TypeError"
| "length_prop JNull = Inl TypeError"
| "length_prop (JArr xs) = Inr (JNum (int (length xs)))"
| "length_prop (JStr s) = Inr (JNum (int (length s)))"
| "length_prop (JObj kvs) = Inr (own kvs ''length'')"
| "length_prop v = Inr JUndefined"

text \<open>\<^verbatim>\<open>parsed.BatchSigners && parsed.BatchSigners.length > 0\<close>.\<close>

definition existing_signers :: "coercions \<Rightarrow> jsval \<Rightarrow> error + bool" where
  "existing_signers rt signers =
     (if truthy signers
      then (case length_prop signers of Inl e \<Rightarrow> Inl e | Inr n \<Rightarrow> gt0 rt n)
      else Inr False)"

text \<open>The callback of \<^verbatim>\<open>parsed.RawTransactions.forEach((entry, i) => ...)\<close>.\<close>

definition check_entry :: "coercions \<Rightarrow> nat \<Rightarrow> jsval \<Rightarrow> error + unit" where
  "check_entry rt i entry =
     (case get_prop entry ''RawTransaction'' of
        Inl e \<Rightarrow> Inl e
      | Inr tx \<Rightarrow>
     if \<not> truthy tx \<or> \<not> typeof_object tx then Inl (WebInnerInvalid i)
     else
     (case get_prop tx ''Fee'' of
        Inl e \<Rightarrow> Inl e
      | Inr fee \<Rightarrow>
     if \<not> strict_eq_str fee ''0'' then Inl (WebInnerFee i)
     else
     (case get_prop tx ''SigningPubKey'' of
        Inl e \<Rightarrow> Inl e
      | Inr key \<Rightarrow>
     if truthy key \<and> \<not> strict_eq_str key [] then Inl (WebInnerSigningPubKey i)
     else
     (case get_prop tx ''TxnSignature'' of
        Inl e \<Rightarrow> Inl e
      | Inr signature \<Rightarrow>
     if truthy signature then Inl (WebInnerTxnSignature i)
     else
     (case get_prop tx ''Flags'' of
        Inl e \<Rightarrow> Inl e
      | Inr flags \<Rightarrow>
     (case to_int32 rt flags of
        Inl e \<Rightarrow> Inl e
      | Inr w \<Rightarrow>
     if w AND 0x40000000 = 0 then Inl (WebInnerFlag i) else Inr ()))))))"

fun forEach_entry :: "coercions \<Rightarrow> nat \<Rightarrow> jsval list \<Rightarrow> error + unit" where
  "forEach_entry rt i [] = Inr ()"
| "forEach_entry rt i (entry # entries) =
     (case check_entry rt i entry of
        Inl e \<Rightarrow> Inl e
      | Inr _ \<Rightarrow> forEach_entry rt (Suc i) entries)"

text \<open>
  The checks of the \<^verbatim>\<open>input\<close> handler of the template field, script.js, on the value
  that \<^verbatim>\<open>JSON.parse\<close> returned.
\<close>

definition batchJsonInput_validate :: "coercions \<Rightarrow> jsval \<Rightarrow> error + unit" where
  "batchJsonInput_validate rt parsed =
     (case get_prop parsed ''TransactionType'' of
        Inl e \<Rightarrow> Inl e
      | Inr kind \<Rightarrow>
     if \<not> strict_eq_str kind ''Batch'' then Inl WebKind
     else
     (case get_prop parsed ''Account'' of
        Inl e \<Rightarrow> Inl e
      | Inr account \<Rightarrow>
     if \<not> truthy account \<or> \<not> typeof_string account then Inl WebAccount
     else
     (case get_prop parsed ''RawTransactions'' of
        Inl e \<Rightarrow> Inl e
      | Inr raw \<Rightarrow>
     (case raw of
        JArr entries \<Rightarrow>
          if length entries < 2 \<or> 8 < length entries then Inl WebRawCount
          else
          (case get_prop parsed ''BatchSigners'' of
             Inl e \<Rightarrow> Inl e
           | Inr signers \<Rightarrow>
          (case existing_signers rt signers of
             Inl e \<Rightarrow> Inl e
           | Inr existing \<Rightarrow>
               if existing then Inl WebExistingSigners
               else forEach_entry rt 0 entries))
      | _ \<Rightarrow> Inl WebRawCount))))"

text \<open>
  The state of the form: the template (null until a text has passed the checks), the
  wallet of the seed field, and the message under the template field.
\<close>

datatype validation = NoMessage | ValidTemplate | InvalidTemplate error

record form =
  batchTemplate :: jsval
  wallet :: "xrpl_wallet option"
  batchValidation :: validation

text \<open>
  The trimmed text of the field: empty, not JSON (\<^verbatim>\<open>JSON.parse\<close> throws), or the
  text of a value.
\<close>

datatype input_text = Blank | Malformed | Json jsval

definition batchJsonInput_input :: "coercions \<Rightarrow> input_text \<Rightarrow> form \<Rightarrow> form" where
  "batchJsonInput_input rt text st =
     (case text of
        Blank \<Rightarrow> st\<lparr>batchTemplate := JNull, batchValidation := NoMessage\<rparr>
      | Malformed \<Rightarrow>
          st\<lparr>batchTemplate := JNull, batchValidation := InvalidTemplate SyntaxError\<rparr>
      | Json parsed \<Rightarrow>
          (case batchJsonInput_validate rt parsed of
             Inl e \<Rightarrow> st\<lparr>batchTemplate := JNull, batchValidation := InvalidTemplate e\<rparr>
           | Inr _ \<Rightarrow> st\<lparr>batchTemplate := parsed, batchValidation := ValidTemplate\<rparr>))"

section \<open>The web form: generating one signer entry\<close>


text \<open>
  \<^verbatim>\<open>JSON.parse(JSON.stringify(v))\<close> on a value that is not undefined: a property whose
  value is undefined is left out, an undefined element of an array becomes null.
\<close>

fun json_copy :: "jsval \<Rightarrow> jsval" where
  "json_copy (JArr xs) =
     JArr (map (\<lambda>x. if x = JUndefined then JNull else json_copy x) xs)"
| "json_copy (JObj kvs) =
     JObj (map (\<lambda>kv. (fst kv, json_copy (snd kv))) (filter (\<lambda>kv. snd kv \<noteq> JUndefined) kvs))"
| "json_copy v = v"

text \<open>The decimal text of an index, the name of the property of an array element.\<close>

fun key_of_index :: "nat \<Rightarrow> string" where
  "key_of_index n =
     (if n < 10 then [char_of (48 + n)]
      else key_of_index (n div 10) @ [char_of (48 + n mod 10)])"

declare key_of_index.simps [simp del]

text \<open>The own properties that \<^verbatim>\<open>{ ...v }\<close> copies.\<close>

fun own_props :: "jsval \<Rightarrow> (string \<times> jsval) list" where
  "own_props (JObj kvs) = kvs"
| "own_props (JArr xs) = zip (map key_of_index [0..<length xs]) xs"
| "own_props (JStr s) = zip (map key_of_index [0..<length s]) (map (\<lambda>c. JStr [c]) s)"
| "own_props v = []"

text \<open>\<^verbatim>\<open>{ ...v, name: x }\<close>: the property keeps its place when the copy has it already.\<close>

fun set_prop :: "string \<Rightarrow> jsval \<Rightarrow> (string \<times> jsval) list \<Rightarrow> (string \<times> jsval) list" where
  "set_prop k x [] = [(k, x)]"
| "set_prop k x (kv # kvs) = (if fst kv = k then (k, x) # kvs else kv # set_prop k x kvs)"

record outputs =
  signerOutput :: jsval
  batchSignersOutput :: jsval
  fullBatchOutput :: jsval
  accountAddress :: string




section \<open>The template as the specification reads it\<close>

text \<open>
  The persisted format: a template is an object whose \<^verbatim>\<open>RawTransactions\<close> is an array
  of entries \<^verbatim>\<open>{ RawTransaction: { ... } }\<close>. \<open>template_shape\<close> asks for that much and
  nothing more: nothing on the kind tag, the flags, the fees or the number of entries.
\<close>

fun entry_shape :: "jsval \<Rightarrow> bool" where
  "entry_shape (JObj ekv) =
     (case own ekv ''RawTransaction'' of JObj tkv \<Rightarrow> True | _ \<Rightarrow> False)"
| "entry_shape v = False"

fun template_shape :: "jsval \<Rightarrow> bool" where
  "template_shape (JObj kvs) =
     (case own kvs ''RawTransactions'' of
        JArr entries \<Rightarrow> list_all entry_shape entries
      | _ \<Rightarrow> False)"
| "template_shape v = False"

text \<open>The submitter, the inner transactions and the acting account of one of them.\<close>

fun submitterAddress :: "jsval \<Rightarrow> jsval" where
  "submitterAddress (JObj kvs) = own kvs ''Account''"
| "submitterAddress v = JUndefined"

fun innerTransactions :: "jsval \<Rightarrow> jsval list" where
  "innerTransactions (JObj kvs) =
     (case own kvs ''RawTransactions'' of JArr entries \<Rightarrow> entries | _ \<Rightarrow> [])"
| "innerTransactions v = []"

fun actingAccount :: "jsval \<Rightarrow> jsval" where
  "actingAccount (JObj ekv) =
     (case own ekv ''RawTransaction'' of JObj tkv \<Rightarrow> own tkv ''Account'' | _ \<Rightarrow> JUndefined)"
| "actingAccount v = JUndefined"

text \<open>The number of inner transactions whose acting account is the address.\<close>

definition involvement :: "jsval \<Rightarrow> string \<Rightarrow> nat" where
  "involvement t a = length (filter (\<lambda>e. actingAccount e = JStr a) (innerTransactions t))"

text \<open>
  What each validation lets through, written as a condition on the template rather than
  as a sequence of checks. The command-line tool: an object of kind Batch with a
  non-empty array of inner transactions.
\<close>

fun cli_accepts :: "jsval \<Rightarrow> bool" where
  "cli_accepts (JObj kvs) =
     (own kvs ''TransactionType'' = JStr ''Batch''
      \<and> (case own kvs ''RawTransactions'' of JArr entries \<Rightarrow> entries \<noteq> [] | _ \<Rightarrow> False))"
| "cli_accepts v = False"

text \<open>
  The web form: kind Batch, a non-empty string as Account, two to eight entries, no
  signers yet, and every entry an object holding a RawTransaction object with fee "0",
  no signing key, no signature and the inner-batch bit \<^verbatim>\<open>0x40000000\<close> in its flags.
\<close>

definition flag_set :: "coercions \<Rightarrow> jsval \<Rightarrow> bool" where
  "flag_set rt flags =
     (case to_int32 rt flags of Inl e \<Rightarrow> False | Inr w \<Rightarrow> w AND 0x40000000 \<noteq> 0)"

fun entry_accepts :: "coercions \<Rightarrow> jsval \<Rightarrow> bool" where
  "entry_accepts rt (JObj ekv) =
     (case own ekv ''RawTransaction'' of
        JObj tkv \<Rightarrow>
          own tkv ''Fee'' = JStr ''0''
          \<and> \<not> truthy (own tkv ''SigningPubKey'')
          \<and> \<not> truthy (own tkv ''TxnSignature'')
          \<and> flag_set rt (own tkv ''Flags'')
      | _ \<Rightarrow> False)"
| "entry_accepts rt v = False"

fun web_accepts :: "coercions \<Rightarrow> jsval \<Rightarrow> bool" where
  "web_accepts rt (JObj kvs) =
     (own kvs ''TransactionType'' = JStr ''Batch''
      \<and> (case own kvs ''Account'' of JStr a \<Rightarrow> a \<noteq> [] | _ \<Rightarrow> False)
      \<and> (case own kvs ''RawTransactions'' of
            JArr entries \<Rightarrow>
              2 \<le> length entries \<and> length entries \<le> 8 \<and> list_all (entry_accepts rt) entries
          | _ \<Rightarrow> False)
      \<and> existing_signers rt (own kvs ''BatchSigners'') = Inr False)"
| "web_accepts rt v = False"

section \<open>Example values\<close>

text \<open>
  The templates of the example scripts: a Batch of payments of 1000000 drops, each inner
  payment with its account, destination, flags, fee and an empty signing key.
\<close>

definition payment :: "string \<Rightarrow> string \<Rightarrow> string \<Rightarrow> int \<Rightarrow> jsval" where
  "payment from to fee flags =
     JObj [(''RawTransaction'',
            JObj [(''TransactionType'', JStr ''Payment''),
                  (''Amount'', JStr ''1000000''),
                  (''Account'', JStr from),
                  (''Destination'', JStr to),
                  (''Flags'', JNum flags),
                  (''Fee'', JStr fee),
                  (''SigningPubKey'', JStr [])])]"

definition batch :: "string \<Rightarrow> int \<Rightarrow> jsval list \<Rightarrow> jsval" where
  "batch submitter flags entries =
     JObj [(''TransactionType'', JStr ''Batch''),
           (''Account'', JStr submitter),
           (''Flags'', JNum flags),
           (''RawTransactions'', JArr entries)]"

text \<open>A runtime for the examples; none of them reaches a coercion.\<close>

definition nan_coercions :: coercions where
  "nan_coercions = \<lparr>coerce_gt0 = (\<lambda>v. Inr False), coerce_int32 = (\<lambda>v. Inr 0)\<rparr>"

text \<open>
  A stand-in for the library in the examples: the address and the public key are the
  seed with another first letter, and signing sets \<^verbatim>\<open>BatchSigners\<close> to one entry,
  for the account of the options when they name one and for the address of the wallet
  otherwise. It has none of the ledger's cryptography.
\<close>

definition entry_account :: "xrpl_wallet \<Rightarrow> jsval \<Rightarrow> string" where
  "entry_account w options =
     (case get_prop options ''batchAccount'' of
        Inr (JStr account) \<Rightarrow> account
      | _ \<Rightarrow> address w)"

definition example_library :: library where
  "example_library =
     \<lparr>fromSeed = (\<lambda>s. Inr \<lparr>address = CHR ''r'' # tl s, publicKey = CHR ''p'' # tl s,
                           privateKey = s\<rparr>),
      signMultiBatch = (\<lambda>w tx options.
        Inr (JObj (set_prop ''BatchSigners''
               (JArr [JObj [(''BatchSigner'',
                  JObj [(''Account'', JStr (entry_account w options)),
                        (''SigningPubKey'', JStr (publicKey w)),
                        (''TxnSignature'', JStr (''signed by '' @ publicKey w))])]])
               (own_props tx))))\<rparr>"

section \<open>Objects on the heap\<close>

text \<open>
  The values above are trees: they say what a template holds, not which object holds
  it. Whether signing changes the template depends on that: \<^verbatim>\<open>{ ...batchTx }\<close> is a
  new object whose properties are the values of the old one, so the array of inner
  transactions of the copy is the array of the original. For this the objects live in a
  heap, a list of cells addressed by their position; a new object is appended. A value
  is a primitive or the address of a cell.
\<close>

datatype hval = HUndefined | HNull | HBool bool | HNum int | HStr string | HRef nat

datatype cell = CObj "(string \<times> hval) list" | CArr "hval list"

type_synonym heap = "cell list"


text \<open>
  \<^verbatim>\<open>JSON.parse\<close> of the text of a value: every object and array of the value is a new
  cell, the parts before the whole.
\<close>

fun store :: "jsval \<Rightarrow> heap \<Rightarrow> hval \<times> heap"
  and store_list :: "jsval list \<Rightarrow> heap \<Rightarrow> hval list \<times> heap"
  and store_props :: "(string \<times> jsval) list \<Rightarrow> heap \<Rightarrow> (string \<times> hval) list \<times> heap"
where
  "store JUndefined h = (HUndefined, h)"
| "store JNull h = (HNull, h)"
| "store (JBool b) h = (HBool b, h)"
| "store (JNum n) h = (HNum n, h)"
| "store (JStr s) h = (HStr s, h)"
| "store (JArr xs) h =
     (case store_list xs h of (vs, h') \<Rightarrow> (HRef (length h'), h' @ [CArr vs]))"
| "store (JObj kvs) h =
     (case store_props kvs h of (ps, h') \<Rightarrow> (HRef (length h'), h' @ [CObj ps]))"
| "store_list [] h = ([], h)"
| "store_list (x # xs) h =
     (case store x h of (v, h1) \<Rightarrow>
        case store_list xs h1 of (vs, h2) \<Rightarrow> (v # vs, h2))"
| "store_props [] h = ([], h)"
| "store_props (kx # kvs) h =
     (case store (snd kx) h of (v, h1) \<Rightarrow>
        case store_props kvs h1 of (ps, h2) \<Rightarrow> ((fst kx, v) # ps, h2))"

text \<open>
  The tree that a value of the heap holds, read to the depth \<open>n\<close>; \<open>None\<close> when
  the structure is deeper.
\<close>

fun view :: "nat \<Rightarrow> heap \<Rightarrow> hval \<Rightarrow> jsval option" where
  "view n h HUndefined = Some JUndefined"
| "view n h HNull = Some JNull"
| "view n h (HBool b) = Some (JBool b)"
| "view n h (HNum i) = Some (JNum i)"
| "view n h (HStr s) = Some (JStr s)"
| "view 0 h (HRef a) = None"
| "view (Suc n) h (HRef a) =
     (if a < length h
      then (case h ! a of
              CArr vs \<Rightarrow> map_option JArr (those (map (view n h) vs))
            | CObj kvs \<Rightarrow>
                map_option JObj
                  (those (map (\<lambda>kv. map_option (Pair (fst kv)) (view n h (snd kv))) kvs)))
      else None)"

text \<open>
  \<^verbatim>\<open>JSON.stringify(v)\<close>, as the value its text denotes. It throws a TypeError on a
  structure that runs into itself. A structure of a heap of \<open>length h\<close> cells that
  does not is no deeper than \<open>length h\<close>, so that depth decides.
\<close>

definition stringify :: "heap \<Rightarrow> hval \<Rightarrow> error + jsval" where
  "stringify h v =
     (case view (length h) h v of None \<Rightarrow> Inl TypeError | Some t \<Rightarrow> Inr (json_copy t))"

text \<open>The reads of the tree model, on the heap. An address outside the heap does not occur.\<close>

definition hown :: "(string \<times> hval) list \<Rightarrow> string \<Rightarrow> hval" where
  "hown kvs k = (case map_of kvs k of None \<Rightarrow> HUndefined | Some v \<Rightarrow> v)"

fun hget_prop :: "heap \<Rightarrow> hval \<Rightarrow> string \<Rightarrow> error + hval" where
  "hget_prop h HUndefined k = Inl TypeError"
| "hget_prop h HNull k = Inl TypeError"
| "hget_prop h (HRef a) k =
     (if a < length h
      then (case h ! a of CObj kvs \<Rightarrow> Inr (hown kvs k) | CArr vs \<Rightarrow> Inr HUndefined)
      else Inr HUndefined)"
| "hget_prop h v k = Inr HUndefined"

fun hindex0 :: "heap \<Rightarrow> hval \<Rightarrow> error + hval" where
  "hindex0 h HUndefined = Inl TypeError"
| "hindex0 h HNull = Inl TypeError"
| "hindex0 h (HStr []) = Inr HUndefined"
| "hindex0 h (HStr (c # s)) = Inr (HStr [c])"
| "hindex0 h (HRef a) =
     (if a < length h
      then (case h ! a of
              CObj kvs \<Rightarrow> Inr (hown kvs ''0'')
            | CArr [] \<Rightarrow> Inr HUndefined
            | CArr (x # xs) \<Rightarrow> Inr x)
      else Inr HUndefined)"
| "hindex0 h v = Inr HUndefined"

fun hlength_prop :: "heap \<Rightarrow> hval \<Rightarrow> error + hval" where
  "hlength_prop h HUndefined = Inl TypeError"
| "hlength_prop h HNull = Inl TypeError"
| "hlength_prop h (HStr s) = Inr (HNum (int (length s)))"
| "hlength_prop h (HRef a) =
     (if a < length h
      then (case h ! a of
              CObj kvs \<Rightarrow> Inr (hown kvs ''length'')
            | CArr vs \<Rightarrow> Inr (HNum (int (length vs))))
      else Inr HUndefined)"
| "hlength_prop h v = Inr HUndefined"

fun htruthy :: "hval \<Rightarrow> bool" where
  "htruthy HUndefined = False"
| "htruthy HNull = False"
| "htruthy (HBool b) = b"
| "htruthy (HNum n) = (n \<noteq> 0)"
| "htruthy (HStr s) = (s \<noteq> [])"
| "htruthy (HRef a) = True"

text \<open>The own properties that \<^verbatim>\<open>{ ...v }\<close> copies: the values, not what they refer to.\<close>

fun hown_props :: "heap \<Rightarrow> hval \<Rightarrow> (string \<times> hval) list" where
  "hown_props h (HRef a) =
     (if a < length h
      then (case h ! a of
              CObj kvs \<Rightarrow> kvs
            | CArr vs \<Rightarrow> zip (map key_of_index [0..<length vs]) vs)
      else [])"
| "hown_props h (HStr s) = zip (map key_of_index [0..<length s]) (map (\<lambda>c. HStr [c]) s)"
| "hown_props h v = []"

fun hset_prop :: "string \<Rightarrow> hval \<Rightarrow> (string \<times> hval) list \<Rightarrow> (string \<times> hval) list" where
  "hset_prop k x [] = [(k, x)]"
| "hset_prop k x (kv # kvs) = (if fst kv = k then (k, x) # kvs else kv # hset_prop k x kvs)"

text \<open>\<^verbatim>\<open>{ ...v }\<close>: one new cell.\<close>

definition spread_copy :: "hval \<Rightarrow> heap \<Rightarrow> hval \<times> heap" where
  "spread_copy v h = (HRef (length h), h @ [CObj (hown_props h v)])"

text \<open>
  The signing function of the library on the heap: given the wallet, the transaction
  and the options it returns the heap as it has left it and the error it has thrown,
  if any.
\<close>

type_synonym hsigner = "xrpl_wallet \<Rightarrow> hval \<Rightarrow> hval \<Rightarrow> heap \<Rightarrow> heap \<times> error option"

text \<open>
  The signing steps of \<^verbatim>\<open>generateBatchSignature\<close>, batchSignerTool.js (the same three
  statements are in \<^verbatim>\<open>generateMultipleBatchSignatures\<close> and in the two submitting
  workflows): the copy \<^verbatim>\<open>txToSign = { ...batchTx }\<close>, the call
  \<^verbatim>\<open>signMultiBatch(signerWallet, txToSign, options)\<close>, the read of
  \<^verbatim>\<open>txToSign.BatchSigners[0]\<close> and the new object \<^verbatim>\<open>{ BatchSigner: ... }\<close>. The
  statements before them (the validations and the involvement check) assign nothing.
\<close>

definition generateBatchSignature_sign ::
  "hsigner \<Rightarrow> xrpl_wallet \<Rightarrow> hval \<Rightarrow> hval \<Rightarrow> heap \<Rightarrow> heap \<times> (error + hval)" where
  "generateBatchSignature_sign sign signerWallet batchTx options h =
     (case spread_copy batchTx h of (txToSign, h1) \<Rightarrow>
     (case sign signerWallet txToSign options h1 of
        (h2, Some e) \<Rightarrow> (h2, Inl e)
      | (h2, None) \<Rightarrow>
     (case hget_prop h2 txToSign ''BatchSigners'' of
        Inl e \<Rightarrow> (h2, Inl e)
      | Inr signers \<Rightarrow>
     (case hindex0 h2 signers of
        Inl e \<Rightarrow> (h2, Inl e)
      | Inr batchSigner \<Rightarrow>
     (case hget_prop h2 batchSigner ''BatchSigner'' of
        Inl e \<Rightarrow> (h2, Inl e)
      | Inr entry \<Rightarrow>
          (h2 @ [CObj [(''BatchSigner'', entry)]], Inr (HRef (length h2))))))))"

text \<open>
  \<^verbatim>\<open>{ ...batchTemplate, BatchSigners: signersArray }\<close> of script.js, and
  \<^verbatim>\<open>{ ...autofilled, BatchSigners: signersArray }\<close> of the devnet demonstration, which
  signs and submits the object: one new cell.
\<close>

definition attach_signers :: "hval \<Rightarrow> hval \<Rightarrow> heap \<Rightarrow> hval \<times> heap" where
  "attach_signers template signersArray h =
     (HRef (length h),
      h @ [CObj (hset_prop ''BatchSigners'' signersArray (hown_props h template))])"

text \<open>
  The signing steps of the generate button, script.js: the copy
  \<^verbatim>\<open>JSON.parse(JSON.stringify(batchTemplate))\<close> (\<^verbatim>\<open>JSON.parse\<close> throws a SyntaxError
  when there is no text), the call of the library on the copy, the checks of its
  \<^verbatim>\<open>BatchSigners\<close>, and the three outputs, each the text of a new object:
  \<^verbatim>\<open>{ BatchSigner: entry }\<close>, \<^verbatim>\<open>[{ BatchSigner: entry }]\<close> and the template with the
  signers attached. The statements before them assign nothing.
\<close>

definition generateBtn_sign ::
  "hsigner \<Rightarrow> xrpl_wallet \<Rightarrow> hval \<Rightarrow> heap \<Rightarrow> heap \<times> (error + outputs)" where
  "generateBtn_sign sign w template h =
     (case stringify h template of
        Inl e \<Rightarrow> (h, Inl e)
      | Inr json \<Rightarrow>
     if json = JUndefined then (h, Inl SyntaxError)
     else
     (case store json h of (batchCopy, h1) \<Rightarrow>
     (case sign w batchCopy HUndefined h1 of
        (h2, Some e) \<Rightarrow> (h2, Inl e)
      | (h2, None) \<Rightarrow>
     (case hget_prop h2 batchCopy ''BatchSigners'' of
        Inl e \<Rightarrow> (h2, Inl e)
      | Inr signers \<Rightarrow>
     if \<not> htruthy signers then (h2, Inl NoBatchSigner)
     else
     (case hlength_prop h2 signers of
        Inl e \<Rightarrow> (h2, Inl e)
      | Inr n \<Rightarrow>
     if n \<noteq> HNum 1 then (h2, Inl NoBatchSigner)
     else
     (case hindex0 h2 signers of
        Inl e \<Rightarrow> (h2, Inl e)
      | Inr first \<Rightarrow>
     (case hget_prop h2 first ''BatchSigner'' of
        Inl e \<Rightarrow> (h2, Inl e)
      | Inr entry \<Rightarrow>
     (let h3 = h2 @ [CObj [(''BatchSigner'', entry)]] in
     (case stringify h3 (HRef (length h2)) of
        Inl e \<Rightarrow> (h3, Inl e)
      | Inr signerText \<Rightarrow>
     (let h4 = h3 @ [CObj [(''BatchSigner'', entry)], CArr [HRef (length h3)]];
          signersArray = HRef (Suc (length h3)) in
     (case stringify h4 signersArray of
        Inl e \<Rightarrow> (h4, Inl e)
      | Inr arrayText \<Rightarrow>
     (case attach_signers template signersArray h4 of (fullBatch, h5) \<Rightarrow>
     (case stringify h5 fullBatch of
        Inl e \<Rightarrow> (h5, Inl e)
      | Inr fullText \<Rightarrow>
          (h5, Inr \<lparr>signerOutput = signerText, batchSignersOutput = arrayText,
                    fullBatchOutput = fullText, accountAddress = address w\<rparr>))))))))))))))"








text \<open>
  The stand-in of the library on the heap: three new cells for the signer entry, and
  the \<^verbatim>\<open>BatchSigners\<close> of the object it is given set to them.
\<close>

definition example_hsign :: hsigner where
  "example_hsign w v options h =
     (case v of
        HRef a \<Rightarrow>
          (if a < length h
           then (case h ! a of
                   CObj kvs \<Rightarrow>
                     ((h @ [CObj [(''Account'', HStr (address w)),
                                  (''SigningPubKey'', HStr (publicKey w)),
                                  (''TxnSignature'', HStr (''signed by '' @ publicKey w))],
                            CObj [(''BatchSigner'', HRef (length h))],
                            CArr [HRef (Suc (length h))]])
                        [a := CObj (hset_prop ''BatchSigners'' (HRef (Suc (Suc (length h)))) kvs)],
                      None)
                 | CArr vs \<Rightarrow> (h, Some (External ''not a Batch'')))
           else (h, Some (External ''not a Batch'')))
      | _ \<Rightarrow> (h, Some (External ''not a Batch'')))"





text \<open>The template of the devnet demonstration, parsed into an empty heap, and a signer.\<close>

definition demo_template :: jsval where
  "demo_template =
     batch ''rP'' 262144 [payment ''rP'' ''rA'' ''0'' 1073741824,
                          payment ''rB'' ''rA'' ''0'' 1073741824]"

definition demo_heap :: heap where
  "demo_heap = snd (store demo_template [])"

definition demo_wallet :: xrpl_wallet where
  "demo_wallet = \<lparr>address = ''rB'', publicKey = ''pB'', privateKey = ''sB''\<rparr>"

section \<open>Seed validation\<close>

text \<open>
  Claim C9. Seed validation accepts its input exactly when the input is a string that
  starts with the character s and has at least 25 characters. On every other input
  (not a string, another first character, fewer than 25 characters) it throws. Nothing
  else is looked at: neither a checksum nor the alphabet of the characters.
\<close>

theorem validateSeed_accepts_iff:
  "(validateSeed seed = Inr True) = seed_accepted seed
   \<and> (\<exists>e. validateSeed seed = Inl e) = (\<not> seed_accepted seed)"
  by (cases seed) (auto simp: validateSeed_def)

text \<open>
  A string of one s and twenty-four exclamation marks, outside the alphabet of seeds,
  is accepted; a 24-character string and a number are not.
\<close>

theorem validateSeed_accepts_iff_witness:
  "validateSeed (JStr ''s!!!!!!!!!!!!!!!!!!!!!!!!'') = Inr True
   \<and> (\<exists>e. validateSeed (JStr ''s!!!!!!!!!!!!!!!!!!!!!!!'') = Inl e)
   \<and> (\<exists>e. validateSeed (JNum 7) = Inl e)"
  using validateSeed_accepts_iff [of "JStr ''s!!!!!!!!!!!!!!!!!!!!!!!!''"]
        validateSeed_accepts_iff [of "JStr ''s!!!!!!!!!!!!!!!!!!!!!!!''"]
        validateSeed_accepts_iff [of "JNum 7"]
  by (simp add: startsWith_s_def)

section \<open>Reading a template\<close>

lemma strict_eq_str_iff: "strict_eq_str v s = (v = JStr s)"
  by (cases v) auto

lemma own_set_prop: "own (set_prop k x kvs) k' = (if k' = k then x else own kvs k')"
  by (induction kvs) (auto simp: own_def)

lemma inner_accounts_shape:
  "list_all entry_shape es \<Longrightarrow> inner_accounts es = Inr (map actingAccount es)"
proof (induction es)
  case Nil
  then show ?case by simp
next
  case (Cons e es)
  then show ?case
    by (cases e) (auto split: jsval.splits)
qed

lemma checkSignerInvolvement_shape:
  assumes "template_shape t"
  shows "checkSignerInvolvement t a =
     (if submitterAddress t = JStr a then Inl (SubmitterIsSigner a (involvement t a))
      else if involvement t a = 0 then Inr [WarnNotSubmitting a]
      else Inr [LogSubmitting a (involvement t a)])"
proof (cases t)
  case (JObj kvs)
  with assms obtain es
    where es: "own kvs ''RawTransactions'' = JArr es" "list_all entry_shape es"
    by (auto split: jsval.splits)
  show ?thesis
    using es JObj
    by (simp add: checkSignerInvolvement_def inner_accounts_shape involvement_def
        strict_eq_str_iff Let_def comp_def)
qed (use assms in auto)

section \<open>Template validation\<close>

lemma validateBatchTransaction_iff:
  "(validateBatchTransaction t = Inr True) = cli_accepts t"
  by (cases t) (auto simp: validateBatchTransaction_def strict_eq_str_iff split: jsval.splits)

lemma validateBatchTransaction_range:
  "validateBatchTransaction t
     \<in> {Inr True, Inl NotAnObject, Inl KindNotBatch, Inl NoRawTransactions}"
  by (cases t) (auto simp: validateBatchTransaction_def strict_eq_str_iff split: jsval.splits)

lemma check_entry_iff: "(check_entry rt i e = Inr ()) = entry_accepts rt e"
proof (cases e)
  case (JObj ekv)
  show ?thesis
  proof (cases "own ekv ''RawTransaction''")
    case (JObj tkv)
    with \<open>e = JObj ekv\<close> show ?thesis
      by (auto simp: check_entry_def strict_eq_str_iff flag_set_def split: sum.splits)
  qed (use \<open>e = JObj ekv\<close> in \<open>auto simp: check_entry_def strict_eq_str_iff\<close>)
qed (auto simp: check_entry_def)

lemma forEach_entry_iff:
  "(forEach_entry rt i es = Inr ()) = list_all (entry_accepts rt) es"
proof (induction es arbitrary: i)
  case Nil
  show ?case by simp
next
  case (Cons e es)
  show ?case
    using check_entry_iff [of rt i e] Cons.IH [of "Suc i"]
    by (auto split: sum.splits)
qed

lemma batchJsonInput_validate_iff:
  "(batchJsonInput_validate rt t = Inr ()) = web_accepts rt t"
proof (cases t)
  case (JObj kvs)
  show ?thesis
    unfolding JObj
    by (auto simp: batchJsonInput_validate_def strict_eq_str_iff forEach_entry_iff
             split: jsval.splits sum.splits)
qed (auto simp: batchJsonInput_validate_def)

lemma validateBatchTransaction_Flags:
  "validateBatchTransaction (JObj (set_prop ''Flags'' f kvs))
     = validateBatchTransaction (JObj kvs)"
  by (simp add: validateBatchTransaction_def own_set_prop)

lemma batchJsonInput_validate_Flags:
  "batchJsonInput_validate rt (JObj (set_prop ''Flags'' f kvs))
     = batchJsonInput_validate rt (JObj kvs)"
  by (simp add: batchJsonInput_validate_def own_set_prop split: jsval.splits)

text \<open>
  Claim C1, as the specification states it, fails on the code. A template whose outer
  flags are 0, with no policy bit at all, passes both validations. The command-line
  validation passes a template whose inner transaction has fee "12" and no inner-batch
  bit. The web form refuses a template with a single inner transaction that has none of
  the defects of the list.
\<close>

theorem template_validation_counterexample:
  "validateBatchTransaction
      (batch ''rP'' 0 [payment ''rA'' ''rB'' ''0'' 1073741824,
                       payment ''rB'' ''rA'' ''0'' 1073741824]) = Inr True
   \<and> batchJsonInput_validate nan_coercions
      (batch ''rP'' 0 [payment ''rA'' ''rB'' ''0'' 1073741824,
                       payment ''rB'' ''rA'' ''0'' 1073741824]) = Inr ()
   \<and> validateBatchTransaction (batch ''rP'' 262144 [payment ''rA'' ''rB'' ''12'' 0]) = Inr True
   \<and> batchJsonInput_validate nan_coercions
      (batch ''rP'' 262144 [payment ''rA'' ''rB'' ''0'' 1073741824]) = Inl WebRawCount"
  by (simp add: validateBatchTransaction_def batchJsonInput_validate_def batch_def payment_def
        own_def existing_signers_def check_entry_def nan_coercions_def)

text \<open>
  Claim C1, amended. The validation of the command-line tool succeeds exactly on an
  object whose kind tag is Batch and whose inner list is a non-empty array, and fails
  otherwise with one of its three errors; it looks at no flag and at no field of an
  inner transaction. The validation of the web form succeeds exactly on a template with
  kind tag Batch, a non-empty string as submitter, two to eight inner transactions, no
  signers attached yet, and every inner transaction with fee "0", no signing key, no
  signature and the inner-batch flag bit set. Neither looks at the outer flags: the
  result is the same whatever they are set to.
\<close>

theorem template_validation_exact:
  "(validateBatchTransaction t = Inr True) = cli_accepts t
   \<and> validateBatchTransaction t
       \<in> {Inr True, Inl NotAnObject, Inl KindNotBatch, Inl NoRawTransactions}
   \<and> (batchJsonInput_validate rt t = Inr ()) = web_accepts rt t
   \<and> (\<exists>e. batchJsonInput_validate rt t = Inl e) = (\<not> web_accepts rt t)
   \<and> validateBatchTransaction (JObj (set_prop ''Flags'' f kvs))
       = validateBatchTransaction (JObj kvs)
   \<and> batchJsonInput_validate rt (JObj (set_prop ''Flags'' f kvs))
       = batchJsonInput_validate rt (JObj kvs)"
proof -
  have "(\<exists>e. batchJsonInput_validate rt t = Inl e) = (\<not> web_accepts rt t)"
    using batchJsonInput_validate_iff [of rt t]
    by (cases "batchJsonInput_validate rt t") auto
  then show ?thesis
    using validateBatchTransaction_iff validateBatchTransaction_range
      batchJsonInput_validate_iff validateBatchTransaction_Flags
      batchJsonInput_validate_Flags
    by blast
qed

text \<open>
  The two-payment template of the example scripts passes both validations, and still
  does with its outer flags replaced by 0.
\<close>

theorem template_validation_exact_witness:
  "validateBatchTransaction
      (batch ''rP'' 262144 [payment ''rA'' ''rB'' ''0'' 1073741824,
                            payment ''rB'' ''rA'' ''0'' 1073741824]) = Inr True
   \<and> batchJsonInput_validate nan_coercions
      (batch ''rP'' 262144 [payment ''rA'' ''rB'' ''0'' 1073741824,
                            payment ''rB'' ''rA'' ''0'' 1073741824]) = Inr ()
   \<and> batchJsonInput_validate nan_coercions
      (JObj (set_prop ''Flags'' (JNum 0)
         [(''TransactionType'', JStr ''Batch''), (''Account'', JStr ''rP''),
          (''Flags'', JNum 262144),
          (''RawTransactions'', JArr [payment ''rA'' ''rB'' ''0'' 1073741824,
                                      payment ''rB'' ''rA'' ''0'' 1073741824])])) = Inr ()"
  using template_validation_exact
    [of "batch ''rP'' 262144 [payment ''rA'' ''rB'' ''0'' 1073741824,
                              payment ''rB'' ''rA'' ''0'' 1073741824]"
        nan_coercions "JNum 0"
        "[(''TransactionType'', JStr ''Batch''), (''Account'', JStr ''rP''),
          (''Flags'', JNum 262144),
          (''RawTransactions'', JArr [payment ''rA'' ''rB'' ''0'' 1073741824,
                                      payment ''rB'' ''rA'' ''0'' 1073741824])]"]
  by (simp add: batch_def payment_def own_def existing_signers_def flag_set_def
        nan_coercions_def)

section \<open>A template that already has signers\<close>

text \<open>
  Claim C10. The validation of the web form refuses every template that already holds a
  non-empty \<^verbatim>\<open>BatchSigners\<close> array, and leaves the form without a template. A template
  that passes the validation is refused, with the message on existing signers, once
  such an array is added to it.
\<close>

theorem existing_signers_rejected:
  "(get_prop parsed ''BatchSigners'' = Inr (JArr (x # xs))
      \<longrightarrow> (\<exists>e. batchJsonInput_validate rt parsed = Inl e)
          \<and> batchTemplate (batchJsonInput_input rt (Json parsed) st) = JNull)
   \<and> (batchJsonInput_validate rt (JObj kvs) = Inr ()
      \<longrightarrow> batchJsonInput_validate rt (JObj (set_prop ''BatchSigners'' (JArr (x # xs)) kvs))
            = Inl WebExistingSigners)"
proof -
  have a: "\<exists>e. batchJsonInput_validate rt parsed = Inl e"
    if "get_prop parsed ''BatchSigners'' = Inr (JArr (x # xs))"
  proof -
    have "\<not> web_accepts rt parsed"
      using that by (cases parsed) (auto simp: existing_signers_def)
    then have "batchJsonInput_validate rt parsed \<noteq> Inr ()"
      using batchJsonInput_validate_iff by blast
    then show ?thesis
      by (cases "batchJsonInput_validate rt parsed") auto
  qed
  have b: "batchTemplate (batchJsonInput_input rt (Json parsed) st) = JNull"
    if "get_prop parsed ''BatchSigners'' = Inr (JArr (x # xs))"
    using a [OF that] by (auto simp: batchJsonInput_input_def)
  have c: "batchJsonInput_validate rt (JObj (set_prop ''BatchSigners'' (JArr (x # xs)) kvs))
            = Inl WebExistingSigners"
    if "batchJsonInput_validate rt (JObj kvs) = Inr ()"
  proof -
    have "web_accepts rt (JObj kvs)"
      using that batchJsonInput_validate_iff by blast
    then show ?thesis
      by (auto simp: batchJsonInput_validate_def own_set_prop
            existing_signers_def strict_eq_str_iff split: jsval.splits)
  qed
  from a b c show ?thesis by blast
qed

text \<open>
  The two-payment template with the entry of a signer attached is refused, and a form
  that is given it has no template.
\<close>

theorem existing_signers_rejected_witness:
  "batchJsonInput_validate nan_coercions
      (JObj (set_prop ''BatchSigners''
               (JArr [JObj [(''BatchSigner'', JObj [(''Account'', JStr ''rA'')])]])
         [(''TransactionType'', JStr ''Batch''), (''Account'', JStr ''rP''),
          (''Flags'', JNum 262144),
          (''RawTransactions'', JArr [payment ''rA'' ''rB'' ''0'' 1073741824,
                                      payment ''rB'' ''rA'' ''0'' 1073741824])]))
     = Inl WebExistingSigners
   \<and> batchTemplate (batchJsonInput_input nan_coercions
      (Json (JObj
         [(''TransactionType'', JStr ''Batch''), (''Account'', JStr ''rP''),
          (''Flags'', JNum 262144),
          (''RawTransactions'', JArr [payment ''rA'' ''rB'' ''0'' 1073741824,
                                      payment ''rB'' ''rA'' ''0'' 1073741824]),
          (''BatchSigners'',
           JArr [JObj [(''BatchSigner'', JObj [(''Account'', JStr ''rA'')])]])]))
      \<lparr>batchTemplate = JNum 1, wallet = None, batchValidation = NoMessage\<rparr>) = JNull"
  using existing_signers_rejected
    [of "JObj
         [(''TransactionType'', JStr ''Batch''), (''Account'', JStr ''rP''),
          (''Flags'', JNum 262144),
          (''RawTransactions'', JArr [payment ''rA'' ''rB'' ''0'' 1073741824,
                                      payment ''rB'' ''rA'' ''0'' 1073741824]),
          (''BatchSigners'',
           JArr [JObj [(''BatchSigner'', JObj [(''Account'', JStr ''rA'')])]])]"
        "JObj [(''BatchSigner'', JObj [(''Account'', JStr ''rA'')])]" "[]"
        nan_coercions
        "\<lparr>batchTemplate = JNum 1, wallet = None, batchValidation = NoMessage\<rparr>"
        "[(''TransactionType'', JStr ''Batch''), (''Account'', JStr ''rP''),
          (''Flags'', JNum 262144),
          (''RawTransactions'', JArr [payment ''rA'' ''rB'' ''0'' 1073741824,
                                      payment ''rB'' ''rA'' ''0'' 1073741824])]"]
  by (simp add: batch_def payment_def own_def existing_signers_def flag_set_def
        nan_coercions_def batchJsonInput_validate_def check_entry_def)

section \<open>The signer and the submitter\<close>

text \<open>
  Claim C6. On a template of the persisted format the involvement check sorts a signer
  address into three cases. The address of the submitter: the check throws. Otherwise,
  an address that is the acting account of at least one inner transaction: the check
  returns and logs how many it submits. Otherwise: the check returns as well, with a
  warning. The check throws in the first case only.
\<close>

theorem involvement_classification:
  assumes "template_shape t"
  shows "checkSignerInvolvement t a =
           (if submitterAddress t = JStr a then Inl (SubmitterIsSigner a (involvement t a))
            else if involvement t a = 0 then Inr [WarnNotSubmitting a]
            else Inr [LogSubmitting a (involvement t a)])
         \<and> (\<exists>e. checkSignerInvolvement t a = Inl e) = (submitterAddress t = JStr a)
         \<and> (involvement t a = 0) = (JStr a \<notin> set (map actingAccount (innerTransactions t)))"
proof -
  have 1: "checkSignerInvolvement t a =
           (if submitterAddress t = JStr a then Inl (SubmitterIsSigner a (involvement t a))
            else if involvement t a = 0 then Inr [WarnNotSubmitting a]
            else Inr [LogSubmitting a (involvement t a)])"
    using assms by (rule checkSignerInvolvement_shape)
  have 2: "(\<exists>e. checkSignerInvolvement t a = Inl e) = (submitterAddress t = JStr a)"
    by (simp add: 1)
  have 3: "(involvement t a = 0) = (JStr a \<notin> set (map actingAccount (innerTransactions t)))"
    by (force simp: involvement_def filter_empty_conv)
  from 1 2 3 show ?thesis by blast
qed

text \<open>
  The template of the devnet demonstration, whose submitter also submits the first
  inner payment: the submitter, the second payer and the receiver.
\<close>

theorem involvement_classification_witness:
  "checkSignerInvolvement
      (batch ''rP'' 262144 [payment ''rP'' ''rA'' ''0'' 1073741824,
                            payment ''rB'' ''rA'' ''0'' 1073741824]) ''rP''
     = Inl (SubmitterIsSigner ''rP'' 1)
   \<and> checkSignerInvolvement
      (batch ''rP'' 262144 [payment ''rP'' ''rA'' ''0'' 1073741824,
                            payment ''rB'' ''rA'' ''0'' 1073741824]) ''rB''
     = Inr [LogSubmitting ''rB'' 1]
   \<and> checkSignerInvolvement
      (batch ''rP'' 262144 [payment ''rP'' ''rA'' ''0'' 1073741824,
                            payment ''rB'' ''rA'' ''0'' 1073741824]) ''rA''
     = Inr [WarnNotSubmitting ''rA'']"
  using
    involvement_classification
      [of "batch ''rP'' 262144 [payment ''rP'' ''rA'' ''0'' 1073741824,
                                payment ''rB'' ''rA'' ''0'' 1073741824]" "''rP''"]
    involvement_classification
      [of "batch ''rP'' 262144 [payment ''rP'' ''rA'' ''0'' 1073741824,
                                payment ''rB'' ''rA'' ''0'' 1073741824]" "''rB''"]
    involvement_classification
      [of "batch ''rP'' 262144 [payment ''rP'' ''rA'' ''0'' 1073741824,
                                payment ''rB'' ''rA'' ''0'' 1073741824]" "''rA''"]
  by (simp add: batch_def payment_def own_def involvement_def)




text \<open>
  With the seed of the second payer and no batch account the same run signs once and
  returns the entry of the payer.
\<close>

lemma example_signature_returned:
  "generateBatchSignature example_library
      (batch ''rParent000000000000000000'' 262144
         [payment ''rParent000000000000000000'' ''rA'' ''0'' 1073741824,
          payment ''rB'' ''rA'' ''0'' 1073741824])
      (JStr ''sSigner000000000000000000'') JUndefined
   = ([Signed ''rSigner000000000000000000'' JUndefined],
      Returned (JObj [(''BatchSigner'',
        JObj [(''Account'', JStr ''rSigner000000000000000000''),
              (''SigningPubKey'', JStr ''pSigner000000000000000000''),
              (''TxnSignature'', JStr ''signed by pSigner000000000000000000'')])]))"
  by (simp add: batch_def payment_def own_def example_library_def entry_account_def
        generateBatchSignature_def generateBatchSignature_try_def
        checkSignerInvolvement_def
        validateBatchTransaction_def validateSeed_def startsWith_s_def)

section \<open>What signing leaves of the template\<close>


























text \<open>
  The copy of the command-line tool holds the very values of the template: its inner
  list is the inner list of the template, not a copy of it.
\<close>

lemma spread_copy_shares:
  "hown_props (snd (spread_copy batchTx h)) (fst (spread_copy batchTx h)) = hown_props h batchTx"
  by (simp add: spread_copy_def)

lemma demo_heap_cells:
  "demo_heap =
     [CObj [(''TransactionType'', HStr ''Payment''), (''Amount'', HStr ''1000000''),
            (''Account'', HStr ''rP''), (''Destination'', HStr ''rA''),
            (''Flags'', HNum 1073741824), (''Fee'', HStr ''0''),
            (''SigningPubKey'', HStr [])],
      CObj [(''RawTransaction'', HRef 0)],
      CObj [(''TransactionType'', HStr ''Payment''), (''Amount'', HStr ''1000000''),
            (''Account'', HStr ''rB''), (''Destination'', HStr ''rA''),
            (''Flags'', HNum 1073741824), (''Fee'', HStr ''0''),
            (''SigningPubKey'', HStr [])],
      CObj [(''RawTransaction'', HRef 2)],
      CArr [HRef 1, HRef 3],
      CObj [(''TransactionType'', HStr ''Batch''), (''Account'', HStr ''rP''),
            (''Flags'', HNum 262144), (''RawTransactions'', HRef 4)]]"
  by (simp add: demo_heap_def demo_template_def batch_def payment_def)



text \<open>
  On the example the stand-in signs: the command-line steps return the new entry, whose
  copy of the template (cell 6) shares the inner list (cell 4) with the template, and
  the steps of the web form return the three outputs.
\<close>

lemma demo_signature:
  "snd (generateBatchSignature_sign example_hsign demo_wallet (HRef 5) HUndefined demo_heap)
     = Inr (HRef 10)
   \<and> hown_props
       (fst (generateBatchSignature_sign example_hsign demo_wallet (HRef 5) HUndefined demo_heap))
       (HRef 6)
     = [(''TransactionType'', HStr ''Batch''), (''Account'', HStr ''rP''),
        (''Flags'', HNum 262144), (''RawTransactions'', HRef 4),
        (''BatchSigners'', HRef 9)]"
  by (simp add: generateBatchSignature_sign_def spread_copy_def example_hsign_def
        demo_heap_cells demo_wallet_def hown_def nth_append)

lemma demo_outputs:
  "snd (generateBtn_sign example_hsign demo_wallet (HRef 5) demo_heap) =
     Inr \<lparr>signerOutput =
            JObj [(''BatchSigner'',
                   JObj [(''Account'', JStr ''rB''), (''SigningPubKey'', JStr ''pB''),
                         (''TxnSignature'', JStr ''signed by pB'')])],
          batchSignersOutput =
            JArr [JObj [(''BatchSigner'',
                   JObj [(''Account'', JStr ''rB''), (''SigningPubKey'', JStr ''pB''),
                         (''TxnSignature'', JStr ''signed by pB'')])]],
          fullBatchOutput =
            JObj (own_props demo_template
                  @ [(''BatchSigners'',
                      JArr [JObj [(''BatchSigner'',
                        JObj [(''Account'', JStr ''rB''), (''SigningPubKey'', JStr ''pB''),
                              (''TxnSignature'', JStr ''signed by pB'')])]])]),
          accountAddress = ''rB''\<rparr>"
  by code_simp





end
